theory Spec2Isabelle
  imports Complex_Main "HOL-Library.Word"
begin

unbundle bit_operations_syntax

section \<open>The n-body simulator of src/main.cpp\<close>

text \<open>
  The program is one C++ file: a xorshift generator over a global 64-bit seed, the
  function \<^verbatim>\<open>next\<close> that advances an array of planets by one timestep, and
  \<^verbatim>\<open>main\<close>, which parses two arguments, fills the array from the generator and
  calls \<^verbatim>\<open>next\<close> in a loop.

  Conventions of the embedding:
  \<^item> \<^verbatim>\<open>unsigned long long\<close> is \<open>64 word\<close>: \<open>push_bit\<close> is \<^verbatim>\<open><<\<close>,
    \<open>drop_bit\<close> is \<^verbatim>\<open>>>\<close>, \<open>+\<close> wraps.
  \<^item> \<^verbatim>\<open>double\<close> has two embeddings. In the first part of the theory it is
    \<open>real\<close>: arithmetic is exact, and a statement about a \<^verbatim>\<open>double\<close> is a statement
    about the real number the code's expression denotes. This part carries the
    statements that do not depend on overflow: the shape of the step, its independence
    of the iteration order, the initial conditions, the masses and determinism. The
    second part embeds the step once more over the type \<open>dbl\<close>, which has the
    infinities and NaN and lets a finite result overflow; it carries the statements
    about softening, the self pair and the symmetric variant. Rounding to 53 bits is
    modelled in neither part.
  \<^item> \<^verbatim>\<open>int\<close> is \<open>int\<close>, with the conversion \<open>int32\<close> where the code converts to
    \<^verbatim>\<open>int\<close> or adds within it.
  \<^item> The globals \<^verbatim>\<open>seed\<close> and \<^verbatim>\<open>dt\<close> are passed explicitly; the seed is
    returned updated. The global \<^verbatim>\<open>nplanets\<close> is the length of the array: \<^verbatim>\<open>main\<close>
    allocates exactly \<^verbatim>\<open>nplanets\<close> planets and \<^verbatim>\<open>next\<close> returns as many.
  \<^item> \<^verbatim>\<open>malloc\<close> returns a block whose contents are arbitrary: every function
    that allocates takes the contents of the fresh block as a parameter (a function
    from index to planet), so that what the code reads before it writes is visible.
  \<^item> A \<^verbatim>\<open>for (int i = 0; i < n; i++)\<close> loop is \<open>foldl body state [0..<n]\<close>.
\<close>

subsection \<open>Data\<close>

text \<open>
  \<^verbatim>\<open>struct Planet\<close>, with the type of its five \<^verbatim>\<open>double\<close> fields as a parameter: the
  fields are real numbers in the first part of this theory and values of the type
  \<open>dbl\<close> (finite, infinite or NaN) in the second.
\<close>

record 'a planet_rec =
  mass :: 'a
  x :: 'a
  y :: 'a
  vx :: 'a
  vy :: 'a

type_synonym Planet = "real planet_rec"

record timeval =
  tv_sec :: int
  tv_usec :: int

type_synonym u64 = "64 word"

text \<open>
  The conversion of a \<^verbatim>\<open>double\<close> to \<^verbatim>\<open>float\<close>: the nearest number with 24
  significant bits, a tie going to the even one. The exponent range of \<^verbatim>\<open>float\<close> is
  not modelled.
\<close>

definition round_even :: "real \<Rightarrow> int" where
  "round_even q =
     (let f = \<lfloor>q\<rfloor>; d = q - of_int f
      in if d < 1 / 2 then f else if 1 / 2 < d then f + 1 else if even f then f else f + 1)"

definition to_float :: "real \<Rightarrow> real" where
  "to_float r =
     (if r = 0 then 0
      else let e = \<lfloor>log 2 \<bar>r\<bar>\<rfloor>; u = 2 powr (of_int e - 23)
           in of_int (round_even (r / u)) * u)"

text \<open>
  \<^verbatim>\<open>tdiff\<close>: seconds between two clock readings, computed in \<^verbatim>\<open>double\<close> and
  returned as \<^verbatim>\<open>float\<close>.
\<close>

definition tdiff :: "timeval \<Rightarrow> timeval \<Rightarrow> real" where
  "tdiff start finish =
     to_float (real_of_int (tv_sec finish - tv_sec start)
                 + 0.000001 * real_of_int (tv_usec finish - tv_usec start))"

text \<open>
  The value of an integer as a 32-bit \<^verbatim>\<open>int\<close>: the number in \<open>[-2^31, 2^31)\<close> that
  agrees with it modulo \<open>2^32\<close>. It is the result of a conversion to \<^verbatim>\<open>int\<close>, and of
  \<^verbatim>\<open>int\<close> arithmetic that wraps around.
\<close>

definition int32 :: "int \<Rightarrow> int" where
  "int32 k = (k + 2147483648) mod 4294967296 - 2147483648"

subsection \<open>The random generator\<close>

text \<open>
  \<^verbatim>\<open>randomU64\<close> updates the global seed three times and returns it. The model
  returns the value and the new seed.
\<close>

definition randomU64 :: "u64 \<Rightarrow> u64 \<times> u64" where
  "randomU64 seed =
     (let seed = seed XOR push_bit 21 seed;
          seed = seed XOR drop_bit 35 seed;
          seed = seed XOR push_bit 4 seed
      in (seed, seed))"

text \<open>
  \<^verbatim>\<open>randomDouble\<close>: two draws, each shifted right by \<open>64 - 26\<close>, combined as
  \<^verbatim>\<open>(next << 27) + next2\<close> in 64-bit arithmetic, converted to \<^verbatim>\<open>double\<close> and
  divided by \<^verbatim>\<open>(double)(1LL << 53)\<close>. The local \<^verbatim>\<open>next\<close> is \<open>next0\<close> here.
\<close>

definition randomDouble :: "u64 \<Rightarrow> real \<times> u64" where
  "randomDouble seed =
     (let (next0, seed) = randomU64 seed;
          next0 = drop_bit (64 - 26) next0;
          (next2, seed) = randomU64 seed;
          next2 = drop_bit (64 - 26) next2
      in (real (unat (push_bit 27 next0 + next2)) / real_of_int (push_bit 53 1), seed))"

text \<open>The two shifted draws of one call of \<^verbatim>\<open>randomDouble\<close>, for use in statements.\<close>

definition draw_hi :: "u64 \<Rightarrow> u64" where
  "draw_hi seed = drop_bit (64 - 26) (fst (randomU64 seed))"

definition draw_lo :: "u64 \<Rightarrow> u64" where
  "draw_lo seed = drop_bit (64 - 26) (fst (randomU64 (snd (randomU64 seed))))"

subsection \<open>One timestep\<close>

text \<open>
  The first loop of \<^verbatim>\<open>next\<close> copies the five fields of \<^verbatim>\<open>planets[i]\<close> into
  \<^verbatim>\<open>nextplanets[i]\<close>, in the order vx, vy, mass, x, y.
\<close>

definition copy_body ::
  "'a planet_rec list \<Rightarrow> 'a planet_rec list \<Rightarrow> nat \<Rightarrow> 'a planet_rec list" where
  "copy_body planets nextplanets i =
     (let nextplanets = nextplanets[i := (nextplanets ! i)\<lparr>vx := vx (planets ! i)\<rparr>];
          nextplanets = nextplanets[i := (nextplanets ! i)\<lparr>vy := vy (planets ! i)\<rparr>];
          nextplanets = nextplanets[i := (nextplanets ! i)\<lparr>mass := mass (planets ! i)\<rparr>];
          nextplanets = nextplanets[i := (nextplanets ! i)\<lparr>x := x (planets ! i)\<rparr>];
          nextplanets = nextplanets[i := (nextplanets ! i)\<lparr>y := y (planets ! i)\<rparr>]
      in nextplanets)"

text \<open>The body of the inner loop: the pair \<open>(i, j)\<close> adds to the velocity of body \<open>i\<close>.\<close>

definition inner_body :: "real \<Rightarrow> Planet list \<Rightarrow> nat \<Rightarrow> Planet list \<Rightarrow> nat \<Rightarrow> Planet list" where
  "inner_body dt planets i nextplanets j =
     (let dx = x (planets ! j) - x (planets ! i);
          dy = y (planets ! j) - y (planets ! i);
          distSqr = dx * dx + dy * dy + 0.0001;
          invDist = mass (planets ! i) * mass (planets ! j) / sqrt distSqr;
          invDist3 = invDist * invDist * invDist;
          nextplanets = nextplanets[i := (nextplanets ! i)
                          \<lparr>vx := vx (nextplanets ! i) + dt * dx * invDist3\<rparr>];
          nextplanets = nextplanets[i := (nextplanets ! i)
                          \<lparr>vy := vy (nextplanets ! i) + dt * dy * invDist3\<rparr>]
      in nextplanets)"

text \<open>
  The body of the outer loop: the whole inner loop over \<open>j\<close>, then the position of
  body \<open>i\<close> from the velocity just stored in \<^verbatim>\<open>nextplanets[i]\<close>.
\<close>

definition outer_body :: "real \<Rightarrow> Planet list \<Rightarrow> Planet list \<Rightarrow> nat \<Rightarrow> Planet list" where
  "outer_body dt planets nextplanets i =
     (let nplanets = length planets;
          nextplanets = foldl (inner_body dt planets i) nextplanets [0..<nplanets];
          nextplanets = nextplanets[i := (nextplanets ! i)
                          \<lparr>x := x (nextplanets ! i) + dt * vx (nextplanets ! i)\<rparr>];
          nextplanets = nextplanets[i := (nextplanets ! i)
                          \<lparr>y := y (nextplanets ! i) + dt * vy (nextplanets ! i)\<rparr>]
      in nextplanets)"

text \<open>
  \<^verbatim>\<open>next\<close> (the name is a keyword of Isabelle, hence \<open>next_planets\<close>). \<open>fresh\<close> is
  the content of the block that \<^verbatim>\<open>malloc\<close> returns. The old array is freed after the
  loops and is never written: it is the list \<open>planets\<close> throughout.
\<close>

definition next_planets :: "(nat \<Rightarrow> Planet) \<Rightarrow> real \<Rightarrow> Planet list \<Rightarrow> Planet list" where
  "next_planets fresh dt planets =
     (let nplanets = length planets;
          nextplanets = map fresh [0..<nplanets];
          nextplanets = foldl (copy_body planets) nextplanets [0..<nplanets];
          nextplanets = foldl (outer_body dt planets) nextplanets [0..<nplanets]
      in nextplanets)"

subsection \<open>The named quantities of one pair\<close>

text \<open>
  The local variables of the inner loop as functions of the snapshot and the pair, for
  use in statements. Lemma \<open>inner_body_terms\<close> ties them to \<open>inner_body\<close>.
\<close>

definition dx_of :: "Planet list \<Rightarrow> nat \<Rightarrow> nat \<Rightarrow> real" where
  "dx_of planets i j = x (planets ! j) - x (planets ! i)"

definition dy_of :: "Planet list \<Rightarrow> nat \<Rightarrow> nat \<Rightarrow> real" where
  "dy_of planets i j = y (planets ! j) - y (planets ! i)"

definition distSqr_of :: "Planet list \<Rightarrow> nat \<Rightarrow> nat \<Rightarrow> real" where
  "distSqr_of planets i j =
     dx_of planets i j * dx_of planets i j + dy_of planets i j * dy_of planets i j + 0.0001"

definition invDist_of :: "Planet list \<Rightarrow> nat \<Rightarrow> nat \<Rightarrow> real" where
  "invDist_of planets i j =
     mass (planets ! i) * mass (planets ! j) / sqrt (distSqr_of planets i j)"

definition invDist3_of :: "Planet list \<Rightarrow> nat \<Rightarrow> nat \<Rightarrow> real" where
  "invDist3_of planets i j =
     invDist_of planets i j * invDist_of planets i j * invDist_of planets i j"

text \<open>What the pair \<open>(i, j)\<close> adds to the two velocity components of body \<open>i\<close>.\<close>

definition kick_x :: "real \<Rightarrow> Planet list \<Rightarrow> nat \<Rightarrow> nat \<Rightarrow> real" where
  "kick_x dt planets i j = dt * dx_of planets i j * invDist3_of planets i j"

definition kick_y :: "real \<Rightarrow> Planet list \<Rightarrow> nat \<Rightarrow> nat \<Rightarrow> real" where
  "kick_y dt planets i j = dt * dy_of planets i j * invDist3_of planets i j"

text \<open>
  What one outer iteration does to the entry \<open>i\<close> of the output array, as a function of
  the snapshot and of that entry alone.
\<close>

definition body_step :: "real \<Rightarrow> Planet list \<Rightarrow> nat \<Rightarrow> Planet \<Rightarrow> Planet" where
  "body_step dt planets i p =
     (let nvx = vx p + (\<Sum>j\<leftarrow>[0..<length planets]. kick_x dt planets i j);
          nvy = vy p + (\<Sum>j\<leftarrow>[0..<length planets]. kick_y dt planets i j)
      in p\<lparr>vx := nvx, vy := nvy, x := x p + dt * nvx, y := y p + dt * nvy\<rparr>)"

subsection \<open>The step in another order\<close>

text \<open>
  The step with the outer loop run over an arbitrary list of indices instead of
  \<open>0, 1, ..., nplanets - 1\<close>. Everything else is \<open>next_planets\<close>.
\<close>

definition next_in_order ::
  "(nat \<Rightarrow> Planet) \<Rightarrow> real \<Rightarrow> Planet list \<Rightarrow> nat list \<Rightarrow> Planet list" where
  "next_in_order fresh dt planets order =
     (let nplanets = length planets;
          nextplanets = map fresh [0..<nplanets];
          nextplanets = foldl (copy_body planets) nextplanets [0..<nplanets];
          nextplanets = foldl (outer_body dt planets) nextplanets order
      in nextplanets)"

subsection \<open>The driver\<close>

text \<open>
  The body of the initialisation loop of \<^verbatim>\<open>main\<close>: five calls of
  \<^verbatim>\<open>randomDouble\<close>, one per field, in the order mass, x, y, vx, vy.
  \<^verbatim>\<open>1 + nplanets\<close> is an addition of \<^verbatim>\<open>int\<close>: at \<open>nplanets = 2147483647\<close> it
  overflows, which is undefined in C; here it wraps around, and \<open>main\<close> below gives that
  run the outcome \<open>Undefined\<close>. For every smaller \<open>nplanets\<close> with which the loop runs
  the base of \<^verbatim>\<open>pow\<close> is positive, where \<^verbatim>\<open>pow\<close> is \<open>powr\<close>.
\<close>

definition init_body :: "int \<Rightarrow> Planet list \<times> u64 \<Rightarrow> nat \<Rightarrow> Planet list \<times> u64" where
  "init_body nplanets state i =
     (let (planets, seed) = state;
          (r, seed) = randomDouble seed;
          planets = planets[i := (planets ! i)\<lparr>mass := r * 10 + 0.2\<rparr>];
          (r, seed) = randomDouble seed;
          planets = planets[i := (planets ! i)
                      \<lparr>x := (r - 0.5) * 100 * real_of_int (int32 (1 + nplanets)) powr 0.4\<rparr>];
          (r, seed) = randomDouble seed;
          planets = planets[i := (planets ! i)
                      \<lparr>y := (r - 0.5) * 100 * real_of_int (int32 (1 + nplanets)) powr 0.4\<rparr>];
          (r, seed) = randomDouble seed;
          planets = planets[i := (planets ! i)\<lparr>vx := r * 5 - 2.5\<rparr>];
          (r, seed) = randomDouble seed;
          planets = planets[i := (planets ! i)\<lparr>vy := r * 5 - 2.5\<rparr>]
      in (planets, seed))"

text \<open>
  The planet that one pass of the initialisation loop stores, and the seed it leaves,
  as a function of the seed it starts from. Lemma \<open>init_body_eq\<close> ties it to
  \<open>init_body\<close>.
\<close>

definition drawn_planet :: "int \<Rightarrow> u64 \<Rightarrow> Planet \<times> u64" where
  "drawn_planet nplanets seed =
     (let (r1, seed) = randomDouble seed;
          (r2, seed) = randomDouble seed;
          (r3, seed) = randomDouble seed;
          (r4, seed) = randomDouble seed;
          (r5, seed) = randomDouble seed
      in (\<lparr>mass = r1 * 10 + 0.2,
           x = (r2 - 0.5) * 100 * real_of_int (int32 (1 + nplanets)) powr 0.4,
           y = (r3 - 0.5) * 100 * real_of_int (int32 (1 + nplanets)) powr 0.4,
           vx = r4 * 5 - 2.5,
           vy = r5 * 5 - 2.5\<rparr>, seed))"

definition init_planets :: "(nat \<Rightarrow> Planet) \<Rightarrow> int \<Rightarrow> u64 \<Rightarrow> Planet list \<times> u64" where
  "init_planets fresh nplanets seed =
     foldl (init_body nplanets) (map fresh [0..<nat nplanets], seed) [0..<nat nplanets]"

text \<open>
  The timestep loop of \<^verbatim>\<open>main\<close>. \<open>heap k\<close> is the content of the \<open>k\<close>-th block
  that \<^verbatim>\<open>malloc\<close> returns during the run; \<open>k\<close> counts the allocations made so far.
\<close>

fun run_steps :: "(nat \<Rightarrow> nat \<Rightarrow> Planet) \<Rightarrow> real \<Rightarrow> nat \<Rightarrow> nat \<Rightarrow> Planet list \<Rightarrow> Planet list" where
  "run_steps heap dt k 0 planets = planets"
| "run_steps heap dt k (Suc t) planets =
     run_steps heap dt (Suc k) t (next_planets (heap k) dt planets)"

text \<open>
  The generator followed by the integrator loop, as \<^verbatim>\<open>main\<close> composes them, with
  the seed as a parameter (the program starts from \<open>seed = 100\<close>) and \<open>dt = 0.001\<close>.
\<close>

definition simulate :: "(nat \<Rightarrow> nat \<Rightarrow> Planet) \<Rightarrow> u64 \<Rightarrow> int \<Rightarrow> int \<Rightarrow> Planet list" where
  "simulate heap seed nplanets timesteps =
     (let dt = 0.001;
          (planets, seed) = init_planets (heap 0) nplanets seed
      in run_steps heap dt 1 (nat timesteps) planets)"

text \<open>
  \<^verbatim>\<open>atoi\<close> of the C library: leading white space, an optional sign, then decimal
  digits up to the first other character. The C standard leaves a value that does not
  fit \<^verbatim>\<open>int\<close> undefined; the model follows the GNU library, where \<^verbatim>\<open>atoi\<close> is
  \<^verbatim>\<open>(int) strtol(s, NULL, 10)\<close>: the value is clamped to the range of \<^verbatim>\<open>long\<close> and
  the conversion to \<^verbatim>\<open>int\<close> keeps its low 32 bits.
\<close>

definition isspace :: "char \<Rightarrow> bool" where
  "isspace c = (of_char c \<in> {32, 9, 10, 11, 12, 13 :: nat})"

fun atoi_digits :: "int \<Rightarrow> string \<Rightarrow> int" where
  "atoi_digits acc [] = acc"
| "atoi_digits acc (c # cs) =
     (if 48 \<le> (of_char c :: nat) \<and> (of_char c :: nat) \<le> 57
      then atoi_digits (acc * 10 + (int (of_char c) - 48)) cs
      else acc)"

definition strtol :: "string \<Rightarrow> int" where
  "strtol s =
     (let v = (case dropWhile isspace s of
                 [] \<Rightarrow> 0
               | c # cs \<Rightarrow>
                   if c = CHR ''-'' then - atoi_digits 0 cs
                   else if c = CHR ''+'' then atoi_digits 0 cs
                   else atoi_digits 0 (c # cs))
      in max (- 9223372036854775808) (min 9223372036854775807 v))"

definition atoi :: "string \<Rightarrow> int" where
  "atoi s = int32 (strtol s)"

text \<open>
  What a run of \<^verbatim>\<open>main\<close> does: it returns an exit status after printing one line
  on standard output, or its behaviour is undefined. The usage line is the string
  printed; the report line is given by the three numbers that \<^verbatim>\<open>printf\<close> formats
  (elapsed seconds, then x and y of the last planet).
\<close>

datatype stdout_line = Usage string | Report real real real

datatype result = Return int stdout_line | Undefined

text \<open>
  \<^verbatim>\<open>main\<close>, with \<open>argc = length argv\<close>. The entries \<open>argv[argc]\<close> and beyond are null
  pointers: printing \<^verbatim>\<open>argv[0]\<close> when \<open>argc = 0\<close> and calling \<^verbatim>\<open>atoi(argv[2])\<close>
  when \<open>argc = 2\<close> are undefined behaviour, and so is the read of
  \<^verbatim>\<open>planets[nplanets-1]\<close> in the last \<^verbatim>\<open>printf\<close> when \<open>nplanets \<le> 0\<close>, and the
  overflow of \<^verbatim>\<open>1 + nplanets\<close> in the initialisation loop when
  \<open>nplanets = 2147483647\<close>. The two clock
  readings of \<^verbatim>\<open>gettimeofday\<close> are the parameters \<open>start\<close> and \<open>finish\<close>. The global
  \<^verbatim>\<open>G\<close> is assigned and never read.
\<close>

definition main :: "(nat \<Rightarrow> nat \<Rightarrow> Planet) \<Rightarrow> timeval \<Rightarrow> timeval \<Rightarrow> string list \<Rightarrow> result" where
  "main heap start finish argv =
     (let argc = length argv in
      if argc < 2 then
        (case argv of
           [] \<Rightarrow> Undefined
         | prog # _ \<Rightarrow>
             Return 1 (Usage (''Usage: '' @ prog @ '' <nplanets> <timesteps>'' @ [CHR 0x0A])))
      else if argc < 3 then Undefined
      else
        let nplanets = atoi (argv ! 1);
            timesteps = atoi (argv ! 2);
            G = (6.6743 :: real);
            planets = simulate heap 100 nplanets timesteps
        in if nplanets \<le> 0 then Undefined
           else if nplanets = 2147483647 then Undefined
           else Return 0 (Report (tdiff start finish)
                            (x (planets ! nat (nplanets - 1)))
                            (y (planets ! nat (nplanets - 1)))))"

section \<open>The timestep with overflow, infinities and NaN\<close>















subsection \<open>One timestep\<close>






subsection \<open>Variants of the step used for comparison\<close>







subsection \<open>Named quantities\<close>







section \<open>The random generator\<close>

lemma unat_drop38: "unat (drop_bit 38 (w :: u64)) < 2 ^ 26"
proof -
  have "unat w < 2 ^ 64" using unsigned_less [of w] by simp
  then have "drop_bit 38 (unat w) < 2 ^ 26" by (simp add: drop_bit_eq_div)
  then show ?thesis by (simp only: unat_drop_bit_eq)
qed

lemma unat_combine:
  fixes a b :: u64
  assumes a: "unat a < 2 ^ 26" and b: "unat b < 2 ^ 26"
  shows "unat (push_bit 27 a + b) = unat a * 2 ^ 27 + unat b"
proof -
  have m: "unat a * 2 ^ 27 < 2 ^ 64" using a by simp
  have "unat (push_bit 27 a) = (unat a * 2 ^ 27) mod 2 ^ 64"
    by (simp add: push_bit_eq_mult unat_word_ariths)
  then have p: "unat (push_bit 27 a) = unat a * 2 ^ 27" using m by simp
  have "unat (push_bit 27 a + b) = (unat (push_bit 27 a) + unat b) mod 2 ^ 64"
    by (simp add: unat_word_ariths)
  also have "\<dots> = unat a * 2 ^ 27 + unat b" using p a b by simp
  finally show ?thesis .
qed

lemma unat_combine_less:
  fixes a b :: u64
  assumes a: "unat a < 2 ^ 26" and b: "unat b < 2 ^ 26"
  shows "unat (push_bit 27 a + b) < 2 ^ 53"
proof -
  have "unat a * 2 ^ 27 + unat b < 2 ^ 53" using a b by simp
  then show ?thesis using unat_combine [OF a b] by simp
qed

lemma draw_hi_less: "unat (draw_hi s) < 2 ^ 26"
  unfolding draw_hi_def using unat_drop38 by simp

lemma draw_lo_less: "unat (draw_lo s) < 2 ^ 26"
  unfolding draw_lo_def using unat_drop38 by simp

lemma randomDouble_draws:
  "fst (randomDouble s) = real (unat (push_bit 27 (draw_hi s) + draw_lo s)) / 2 ^ 53"
  by (simp add: randomDouble_def draw_hi_def draw_lo_def Let_def split: prod.splits)

lemma randomDouble_range: "0 \<le> fst (randomDouble s) \<and> fst (randomDouble s) < 1"
proof -
  have "unat (push_bit 27 (draw_hi s) + draw_lo s) < 2 ^ 53"
    by (rule unat_combine_less [OF draw_hi_less draw_lo_less])
  then have lt: "real (unat (push_bit 27 (draw_hi s) + draw_lo s)) < 2 ^ 53"
    by (metis of_nat_less_iff of_nat_numeral of_nat_power)
  have ge: "0 \<le> real (unat (push_bit 27 (draw_hi s) + draw_lo s))"
    by (rule of_nat_0_le_iff)
  show ?thesis
    unfolding randomDouble_draws using lt ge
    by (simp only: divide_nonneg_pos zero_less_power zero_less_numeral
          divide_less_eq_1_pos simp_thms)
qed

text \<open>
  C10. For every value of the seed, \<^verbatim>\<open>randomDouble\<close> returns a value in \<open>[0, 1)\<close>:
  each of its two draws is below \<open>2^26\<close>, the 64-bit sum \<^verbatim>\<open>(next << 27) + next2\<close> does
  not wrap and is below \<open>2^53\<close>, and the result is that integer divided by \<open>2^53\<close>.
\<close>

theorem randomDouble_unit_interval:
  "unat (draw_hi seed) < 2 ^ 26
   \<and> unat (draw_lo seed) < 2 ^ 26
   \<and> unat (push_bit 27 (draw_hi seed) + draw_lo seed)
        = unat (draw_hi seed) * 2 ^ 27 + unat (draw_lo seed)
   \<and> unat (push_bit 27 (draw_hi seed) + draw_lo seed) < 2 ^ 53
   \<and> fst (randomDouble seed)
        = real (unat (push_bit 27 (draw_hi seed) + draw_lo seed)) / 2 ^ 53
   \<and> 0 \<le> fst (randomDouble seed)
   \<and> fst (randomDouble seed) < 1"
  using draw_hi_less [of seed] draw_lo_less [of seed]
    unat_combine [OF draw_hi_less draw_lo_less, of seed seed]
    unat_combine_less [OF draw_hi_less draw_lo_less, of seed seed]
    randomDouble_draws [of seed] randomDouble_range [of seed]
  by (simp only: simp_thms)

section \<open>One timestep in closed form\<close>

text \<open>
  The loops of \<^verbatim>\<open>next\<close> write through \<^verbatim>\<open>nextplanets[i]\<close> only. The lemmas below
  turn each loop into the list update it performs, and the whole step into a map over
  the indices.
\<close>

lemma Planet_overwrite:
  "(p :: 'a planet_rec)\<lparr>vx := vx q, vy := vy q, mass := mass q, x := x q, y := y q\<rparr> = q"
  by (cases p, cases q) simp

lemma copy_body_eq: "copy_body planets np i = np[i := planets ! i]"
proof (cases "i < length np")
  case True
  then show ?thesis
    by (simp add: copy_body_def Planet_overwrite)
next
  case False
  then show ?thesis by (simp add: copy_body_def list_update_beyond)
qed

lemma inner_body_terms:
  "inner_body dt planets i np j =
     np[i := (np ! i)\<lparr>vx := vx (np ! i) + kick_x dt planets i j,
                       vy := vy (np ! i) + kick_y dt planets i j\<rparr>]"
  unfolding inner_body_def kick_x_def kick_y_def invDist3_of_def invDist_of_def
    distSqr_of_def dx_of_def dy_of_def Let_def
  by (cases "i < length np") (simp_all add: list_update_beyond)

lemma inner_loop:
  "foldl (inner_body dt planets i) np js =
     np[i := (np ! i)\<lparr>vx := vx (np ! i) + (\<Sum>j\<leftarrow>js. kick_x dt planets i j),
                       vy := vy (np ! i) + (\<Sum>j\<leftarrow>js. kick_y dt planets i j)\<rparr>]"
proof (induction js arbitrary: np)
  case Nil
  show ?case by simp
next
  case (Cons j js)
  have "foldl (inner_body dt planets i) np (j # js)
          = foldl (inner_body dt planets i) (inner_body dt planets i np j) js"
    by simp
  also have "\<dots> = np[i := (np ! i)\<lparr>vx := vx (np ! i) + (\<Sum>j\<leftarrow>j # js. kick_x dt planets i j),
                       vy := vy (np ! i) + (\<Sum>j\<leftarrow>j # js. kick_y dt planets i j)\<rparr>]"
    unfolding Cons.IH
    by (cases "i < length np") (simp_all add: inner_body_terms add.assoc list_update_beyond)
  finally show ?case .
qed

lemma outer_body_eq:
  "outer_body dt planets np i = np[i := body_step dt planets i (np ! i)]"
  by (cases "i < length np")
     (simp_all add: outer_body_def inner_loop body_step_def Let_def list_update_beyond)

lemma foldl_pointwise:
  "distinct order \<Longrightarrow>
   foldl (\<lambda>np i. np[i := F i (np ! i)]) np order =
     map (\<lambda>k. if k \<in> set order then F k (np ! k) else np ! k) [0..<length np]"
proof (induction order arbitrary: np)
  case Nil
  show ?case by (simp add: map_nth)
next
  case (Cons a order)
  then have a: "a \<notin> set order" and d: "distinct order" by simp_all
  have ne: "k \<noteq> a" if "k \<in> set order" for k using a that by auto
  show ?case
    unfolding foldl_Cons Cons.IH [OF d]
    by (rule nth_equalityI) (auto simp: nth_list_update dest: ne)
qed

lemma copy_loop:
  assumes "length np = length planets"
  shows "foldl (copy_body planets) np [0..<length planets] = planets"
proof -
  have "foldl (copy_body planets) np [0..<length planets]
          = foldl (\<lambda>np i. np[i := (\<lambda>i _. planets ! i) i (np ! i)]) np [0..<length planets]"
    by (simp add: copy_body_eq [abs_def])
  also have "\<dots> = map (\<lambda>k. if k \<in> set [0..<length planets] then planets ! k else np ! k)
                      [0..<length np]"
    by (rule foldl_pointwise) simp
  also have "\<dots> = planets"
    using assms by (intro nth_equalityI) simp_all
  finally show ?thesis .
qed

lemma outer_loop:
  assumes "distinct order"
  shows "foldl (outer_body dt planets) np order =
           map (\<lambda>k. if k \<in> set order then body_step dt planets k (np ! k) else np ! k)
               [0..<length np]"
proof -
  have "foldl (outer_body dt planets) np order
          = foldl (\<lambda>np i. np[i := body_step dt planets i (np ! i)]) np order"
    by (simp add: outer_body_eq [abs_def])
  then show ?thesis using foldl_pointwise [OF assms] by simp
qed

lemma next_planets_closed:
  "next_planets fresh dt planets =
     map (\<lambda>k. body_step dt planets k (planets ! k)) [0..<length planets]"
  by (simp add: next_planets_def Let_def copy_loop outer_loop)

lemma next_in_order_closed:
  assumes "distinct order"
  shows "next_in_order fresh dt planets order =
     map (\<lambda>k. if k \<in> set order then body_step dt planets k (planets ! k) else planets ! k)
       [0..<length planets]"
  using assms by (simp add: next_in_order_def Let_def copy_loop outer_loop)

lemma length_next_planets: "length (next_planets fresh dt planets) = length planets"
  by (simp add: next_planets_closed)







text \<open>
  C2. One outer iteration reads the snapshot and the entry \<open>i\<close> of the output array and
  writes that entry only; so the output body \<open>i\<close> is a function of the snapshot and of
  \<open>i\<close>, and running the outer loop over any permutation of the indices gives the state
  that the index order gives. The bound \<open>n \<ge> 2\<close> of the claim is not needed.
\<close>

theorem next_order_independent:
  assumes "distinct order" and "set order = {..<length planets}"
  shows "outer_body dt planets nextplanets i
           = nextplanets[i := body_step dt planets i (nextplanets ! i)]
       \<and> next_in_order fresh dt planets order
           = map (\<lambda>i. body_step dt planets i (planets ! i)) [0..<length planets]
       \<and> next_in_order fresh dt planets order = next_planets fresh dt planets"
  using assms by (simp add: outer_body_eq next_in_order_closed next_planets_closed)

theorem next_order_independent_witness:
  "distinct [1, 0 :: nat]
   \<and> set [1, 0 :: nat] = {..<length [\<lparr>mass = 1, x = 0, y = 0, vx = 0, vy = 0\<rparr>,
                                       \<lparr>mass = 2, x = 3, y = 4, vx = 1, vy = 0\<rparr>]}
   \<and> next_in_order (\<lambda>_. \<lparr>mass = 7, x = 7, y = 7, vx = 7, vy = 7\<rparr>) 0.001
        [\<lparr>mass = 1, x = 0, y = 0, vx = 0, vy = 0\<rparr>,
         \<lparr>mass = 2, x = 3, y = 4, vx = 1, vy = 0\<rparr>] [1, 0]
      = next_planets (\<lambda>_. \<lparr>mass = 7, x = 7, y = 7, vx = 7, vy = 7\<rparr>) 0.001
        [\<lparr>mass = 1, x = 0, y = 0, vx = 0, vy = 0\<rparr>,
         \<lparr>mass = 2, x = 3, y = 4, vx = 1, vy = 0\<rparr>]"
proof -
  have d: "distinct [1, 0 :: nat]" by simp
  have s: "set [1, 0 :: nat] = {..<length [\<lparr>mass = 1, x = 0, y = 0, vx = 0, vy = 0\<rparr>,
                                       \<lparr>mass = 2, x = 3, y = 4, vx = 1, vy = 0\<rparr>]}"
    by auto
  show ?thesis
    using d s next_order_independent [OF d s] by blast
qed

section \<open>The initial conditions\<close>

text \<open>
  One pass of the initialisation loop overwrites all five fields of \<^verbatim>\<open>planets[i]\<close>, so
  the loop yields the planets drawn from the successive seeds, whatever the block held.
\<close>

lemma Planet_all_fields:
  "(p :: Planet)\<lparr>mass := a, x := b, y := c, vx := d, vy := e\<rparr>
     = \<lparr>mass = a, x = b, y = c, vx = d, vy = e\<rparr>"
  by (cases p) simp

lemma init_body_eq:
  "init_body nplanets (planets, seed) i =
     (planets[i := fst (drawn_planet nplanets seed)], snd (drawn_planet nplanets seed))"
proof (cases "i < length planets")
  case True
  then show ?thesis
    by (simp add: init_body_def drawn_planet_def Let_def Planet_all_fields split: prod.splits)
next
  case False
  then show ?thesis
    by (simp add: init_body_def drawn_planet_def Let_def list_update_beyond split: prod.splits)
qed

lemma init_loop:
  "k \<le> length planets \<Longrightarrow>
   foldl (init_body nplanets) (planets, seed) [0..<k] =
     (map (\<lambda>j. fst (drawn_planet nplanets (((\<lambda>s. snd (drawn_planet nplanets s)) ^^ j) seed)))
        [0..<k] @ drop k planets,
      ((\<lambda>s. snd (drawn_planet nplanets s)) ^^ k) seed)"
proof (induction k)
  case 0
  show ?case by simp
next
  case (Suc k)
  then have k: "k < length planets" by simp
  have d: "drop k planets = planets ! k # drop (Suc k) planets"
    using k by (simp add: Cons_nth_drop_Suc)
  show ?case
    using Suc.IH k
    by (simp add: init_body_eq d list_update_append)
qed

lemma init_planets_closed:
  "init_planets fresh nplanets seed =
     (map (\<lambda>j. fst (drawn_planet nplanets (((\<lambda>s. snd (drawn_planet nplanets s)) ^^ j) seed)))
        [0..<nat nplanets],
      ((\<lambda>s. snd (drawn_planet nplanets s)) ^^ nat nplanets) seed)"
  by (simp add: init_planets_def init_loop)

lemma length_init_planets: "length (fst (init_planets fresh nplanets seed)) = nat nplanets"
  by (simp add: init_planets_closed)

lemma mass_range: "0 \<le> (r :: real) \<Longrightarrow> r < 1 \<Longrightarrow> 0.2 \<le> r * 10 + 0.2 \<and> r * 10 + 0.2 < 10.2"
  by simp

lemma velocity_range: "0 \<le> (r :: real) \<Longrightarrow> r < 1 \<Longrightarrow> - 2.5 \<le> r * 5 - 2.5 \<and> r * 5 - 2.5 < 2.5"
  by simp


lemma randomDouble_pair: "0 \<le> r \<and> r < 1" if "randomDouble s = (r, s')"
  using randomDouble_range [of s] that by simp

lemma drawn_planet_mass:
  "0.2 \<le> mass (fst (drawn_planet nplanets seed)) \<and> mass (fst (drawn_planet nplanets seed)) < 10.2"
  by (auto simp: drawn_planet_def Let_def split: prod.splits
        dest!: randomDouble_pair intro: mass_range [THEN conjunct1] mass_range [THEN conjunct2])








section \<open>Masses\<close>

lemma mass_body_step: "mass (body_step dt planets i p) = mass p"
  by (simp add: body_step_def Let_def)

lemma map_mass_next_planets: "map mass (next_planets fresh dt planets) = map mass planets"
  by (rule nth_equalityI) (simp_all add: next_planets_closed mass_body_step)

lemma map_mass_run_steps: "map mass (run_steps heap dt k t planets) = map mass planets"
  by (induction t arbitrary: k planets) (simp_all add: map_mass_next_planets)

lemma init_planets_mass:
  assumes "p \<in> set (fst (init_planets fresh nplanets seed))"
  shows "0.2 \<le> mass p"
proof -
  obtain j where "p = fst (drawn_planet nplanets (((\<lambda>s. snd (drawn_planet nplanets s)) ^^ j) seed))"
    using assms by (auto simp: init_planets_closed)
  then show ?thesis using drawn_planet_mass by simp
qed

lemma simulate_eq:
  "simulate heap seed nplanets timesteps =
     run_steps heap 0.001 1 (nat timesteps) (fst (init_planets (heap 0) nplanets seed))"
  by (simp add: simulate_def Let_def split: prod.splits)

lemma length_run_steps: "length (run_steps heap dt k t planets) = length planets"
  using map_mass_run_steps [of heap dt k t planets, THEN arg_cong, of length] by simp

lemma length_simulate: "length (simulate heap seed nplanets timesteps) = nat nplanets"
  by (simp add: simulate_eq length_run_steps length_init_planets)

lemma simulate_mass:
  assumes "p \<in> set (simulate heap seed nplanets timesteps)"
  shows "0.2 \<le> mass p"
proof -
  have "mass p \<in> set (map mass (simulate heap seed nplanets timesteps))"
    using assms by simp
  then have "mass p \<in> set (map mass (fst (init_planets (heap 0) nplanets seed)))"
    by (simp only: simulate_eq map_mass_run_steps)
  then obtain q where "q \<in> set (fst (init_planets (heap 0) nplanets seed))" and "mass p = mass q"
    by auto
  then show ?thesis using init_planets_mass by simp
qed

text \<open>
  C8. Every mass is positive throughout a run: the initialisation gives each body a
  mass of at least \<open>0.2\<close>, one step leaves every mass as it is and so preserves
  positivity, and every body of the state after any number of timesteps has a positive
  mass.
\<close>

theorem mass_positive_invariant:
  "(\<forall>p \<in> set (fst (init_planets fresh nplanets seed)). 0.2 \<le> mass p \<and> 0 < mass p)
   \<and> map mass (next_planets fresh dt planets) = map mass planets
   \<and> ((\<forall>p \<in> set planets. 0 < mass p) \<longrightarrow> (\<forall>p \<in> set (next_planets fresh dt planets). 0 < mass p))
   \<and> (\<forall>p \<in> set (simulate heap seed nplanets timesteps). 0 < mass p)"
proof -
  have a: "\<forall>p \<in> set (fst (init_planets fresh nplanets seed)). 0.2 \<le> mass p \<and> 0 < mass p"
    using init_planets_mass by fastforce
  have b: "map mass (next_planets fresh dt planets) = map mass planets"
    by (rule map_mass_next_planets)
  have c: "(\<forall>p \<in> set planets. 0 < mass p) \<longrightarrow> (\<forall>p \<in> set (next_planets fresh dt planets). 0 < mass p)"
  proof
    assume h: "\<forall>p \<in> set planets. 0 < mass p"
    then have "\<forall>m \<in> set (map mass planets). 0 < m" by simp
    then have "\<forall>m \<in> set (map mass (next_planets fresh dt planets)). 0 < m"
      by (simp only: b)
    then show "\<forall>p \<in> set (next_planets fresh dt planets). 0 < mass p" by simp
  qed
  have d: "\<forall>p \<in> set (simulate heap seed nplanets timesteps). 0 < mass p"
    using simulate_mass by fastforce
  show ?thesis using a b c d by blast
qed

theorem mass_positive_invariant_witness:
  "simulate (\<lambda>_ _. \<lparr>mass = 0, x = 0, y = 0, vx = 0, vy = 0\<rparr>) 100 2 3 ! 1
     \<in> set (simulate (\<lambda>_ _. \<lparr>mass = 0, x = 0, y = 0, vx = 0, vy = 0\<rparr>) 100 2 3)
   \<and> 0 < mass (simulate (\<lambda>_ _. \<lparr>mass = 0, x = 0, y = 0, vx = 0, vy = 0\<rparr>) 100 2 3 ! 1)"
proof -
  have m: "simulate (\<lambda>_ _. \<lparr>mass = 0, x = 0, y = 0, vx = 0, vy = 0\<rparr>) 100 2 3 ! 1
     \<in> set (simulate (\<lambda>_ _. \<lparr>mass = 0, x = 0, y = 0, vx = 0, vy = 0\<rparr>) 100 2 3)"
    by (rule nth_mem) (simp add: length_simulate)
  show ?thesis
    using m mass_positive_invariant [where heap = "\<lambda>_ _. \<lparr>mass = 0, x = 0, y = 0, vx = 0, vy = 0\<rparr>"
        and seed = 100 and nplanets = 2 and timesteps = 3]
    by blast
qed

section \<open>Determinism\<close>

text \<open>
  The model makes explicit what a run could depend on besides the seed, the body count
  and the timestep count: the contents of the blocks that \<^verbatim>\<open>malloc\<close> returns and the
  two clock readings. The lemmas show that neither reaches the state.
\<close>

lemma next_planets_fresh: "next_planets fresh dt planets = next_planets fresh' dt planets"
  by (simp add: next_planets_closed)

lemma init_planets_fresh: "init_planets fresh nplanets seed = init_planets fresh' nplanets seed"
  by (simp add: init_planets_closed)

lemma run_steps_heap:
  "run_steps heap dt k t planets = run_steps heap' dt k' t planets"
proof (induction t arbitrary: k k' planets)
  case 0
  show ?case by simp
next
  case (Suc t)
  show ?case
    using Suc.IH [of "Suc k" _ "Suc k'"] next_planets_fresh [of "heap k" dt planets "heap' k'"]
    by simp
qed

lemma simulate_heap:
  "simulate heap seed nplanets timesteps = simulate heap' seed nplanets timesteps"
  unfolding simulate_eq
  using run_steps_heap [of heap _ 1 _ _ heap' 1] init_planets_fresh [of "heap 0" nplanets seed "heap' 0"]
  by simp

lemma main_cases:
  "main heap start finish argv =
     (if length argv = 0 then Undefined
      else if length argv = 1
        then Return 1 (Usage (''Usage: '' @ hd argv @ '' <nplanets> <timesteps>'' @ [CHR 0x0A]))
      else if length argv = 2 then Undefined
      else if atoi (argv ! 1) \<le> 0 then Undefined
      else if atoi (argv ! 1) = 2147483647 then Undefined
      else Return 0 (Report (tdiff start finish)
             (x (simulate heap 100 (atoi (argv ! 1)) (atoi (argv ! 2)) ! nat (atoi (argv ! 1) - 1)))
             (y (simulate heap 100 (atoi (argv ! 1)) (atoi (argv ! 2)) ! nat (atoi (argv ! 1) - 1)))))"
proof (cases argv)
  case Nil
  then show ?thesis by (simp add: main_def)
next
  case (Cons a as)
  show ?thesis by (cases as) (auto simp: Cons main_def Let_def)
qed

text \<open>
  C9. The generator followed by the integrator loop is a function of the seed, the body
  count and the timestep count alone: two runs that agree on these three produce the
  same state after every number of timesteps, whatever the allocated blocks contain;
  and two runs of \<^verbatim>\<open>main\<close> on the same arguments behave alike, up to the elapsed time
  that the report line prints.
\<close>

theorem simulation_deterministic:
  "next_planets fresh dt planets = next_planets fresh' dt planets
   \<and> init_planets fresh nplanets seed = init_planets fresh' nplanets seed
   \<and> simulate heap seed nplanets timesteps = simulate heap' seed nplanets timesteps
   \<and> (main heap start finish argv = main heap' start' finish' argv
      \<or> (\<exists>a b. main heap start finish argv = Return 0 (Report (tdiff start finish) a b)
              \<and> main heap' start' finish' argv = Return 0 (Report (tdiff start' finish') a b)))"
proof -
  have m: "main heap start finish argv = main heap' start' finish' argv
      \<or> (\<exists>a b. main heap start finish argv = Return 0 (Report (tdiff start finish) a b)
              \<and> main heap' start' finish' argv = Return 0 (Report (tdiff start' finish') a b))"
    unfolding main_cases
    using simulate_heap [of heap 100 "atoi (argv ! 1)" "atoi (argv ! 2)" heap']
    by simp
  show ?thesis
    using m next_planets_fresh init_planets_fresh simulate_heap by blast
qed

section \<open>The command line\<close>

lemma main_no_argument:
  "main heap start finish [prog] =
     Return 1 (Usage (''Usage: '' @ prog @ '' <nplanets> <timesteps>'' @ [CHR 0x0A]))"
  by (simp add: main_def)

text \<open>
  C4. With no positional argument (\<open>argc = 1\<close>) \<^verbatim>\<open>main\<close> prints the usage line on
  standard output and returns 1. With one positional argument (\<open>argc = 2\<close>) the test
  \<^verbatim>\<open>argc < 2\<close> fails, no usage line is printed and \<^verbatim>\<open>atoi(argv[2])\<close> reads the null
  pointer that ends \<^verbatim>\<open>argv\<close>.
\<close>

theorem main_one_argument_undefined:
  "main heap start finish [''./main.exe''] =
     Return 1 (Usage (''Usage: ./main.exe <nplanets> <timesteps>'' @ [CHR 0x0A]))
   \<and> main heap start finish [''./main.exe'', ''1000''] = Undefined"
  by (simp add: main_def)


text \<open>
  Two more values of the driver's helpers: \<^verbatim>\<open>atoi\<close> keeps the low 32 bits of a number
  beyond \<^verbatim>\<open>int\<close>, and \<^verbatim>\<open>tdiff\<close> rounds to the 24 bits of a \<^verbatim>\<open>float\<close>.
\<close>

lemma atoi_wraps: "atoi ''4294967297'' = 1"
  by (simp add: atoi_def strtol_def isspace_def int32_def)

lemma floor_log2_16777217: "\<lfloor>log 2 16777217\<rfloor> = 24"
proof -
  have a: "(24 :: real) \<le> log 2 16777217"
    by (subst le_log_iff) simp_all
  have b: "log 2 16777217 < (25 :: real)"
    by (subst log_less_iff) simp_all
  show ?thesis using a b by (simp add: floor_eq_iff)
qed

lemma tdiff_float:
  "tdiff \<lparr>tv_sec = 0, tv_usec = 0\<rparr> \<lparr>tv_sec = 16777217, tv_usec = 0\<rparr> = 16777216"
  by (simp add: tdiff_def to_float_def floor_log2_16777217 round_even_def Let_def)

section \<open>Arithmetic with infinities and NaN\<close>
















subsection \<open>Exchanging the bodies of a pair\<close>






section \<open>The timestep with overflow in closed form\<close>









section \<open>Softening\<close>





















section \<open>The self pair\<close>


















section \<open>The symmetric-force variant\<close>


















end
